theory Spec2Isabelle
  imports Main "HOL-Library.Word" "HOL-Library.Signed_Division"
begin

section \<open>The codec bridges of mediabunny: lame-bridge.c and xvid-bridge.c\<close>

text \<open>
  The two C files are thin wrappers around the LAME and Xvid libraries, compiled with
  Emscripten. The embedding below follows them line by line.

  \<^item> A C \<open>int\<close> is a 32-bit word. Arithmetic wraps modulo \<open>2 ^ 32\<close>, which is what the
    WebAssembly target computes; \<open>/\<close> truncates towards zero (\<open>c_div\<close>), comparisons
    with \<open>>\<close> are signed.
  \<^item> A pointer is a 32-bit address, \<open>NULL\<close> is address 0, and adding an \<open>int\<close> to an
    \<open>unsigned char *\<close> adds the two words.
  \<^item> There is one memory, \<open>mem\<close>, of 32-bit cells named by their address. It holds the
    session objects and the \<open>int\<close> cells the caller passes for results (\<open>out_type\<close>,
    \<open>out_width\<close>, \<open>out_height\<close>) alike, so a store through an output pointer that
    points into a session object changes that object. A session object at address \<open>p\<close>
    is the three cells at \<open>p\<close>, \<open>p + 4\<close> and \<open>p + 8\<close>: the handle, the width and the
    height, which is the layout of both structures on the 32-bit target. A pointer to
    \<open>int\<close> is taken to be a multiple of 4, as C requires, so that two cells are the same
    or do not overlap.
  \<^item> The set \<open>allocated\<close> holds the blocks that \<open>malloc\<close> returned and \<open>free\<close> has not
    taken back. Reading or writing a field through \<open>NULL\<close> or through a block that is
    not live, and freeing a block that is not live, is a fault, and the function stops
    there. A store through a null pointer to \<open>int\<close> is a fault too.
  \<^item> The byte buffers (bit stream, picture) are not in \<open>mem\<close>; only their addresses are
    passed on. The libraries write to these buffers and to their own contexts only.
  \<^item> LAME, Xvid and the allocator are outside the two files. Every call into them is
    appended to the \<open>trace\<close> of the world with the arguments it was given, and what they
    answer is a parameter of the model (\<open>env\<close>): an arbitrary function of the trace up to
    and including the call.
\<close>

type_synonym c_int = "32 word"
type_synonym addr = "32 word"

definition NULL :: addr where
  "NULL = 0"

text \<open>The operator \<open>/\<close> of C on \<open>int\<close>: the quotient truncated towards zero.\<close>

definition c_div :: "c_int \<Rightarrow> c_int \<Rightarrow> c_int" where
  "c_div a b = word_of_int (sint a sdiv sint b)"

subsection \<open>The structures of xvid-bridge.c\<close>

record decoder_state =
  decoder_handle :: addr
  width :: c_int
  height :: c_int

record encoder_state =
  encoder_handle :: addr
  width :: c_int
  height :: c_int

subsection \<open>The structures of the Xvid interface\<close>

text \<open>
  Modelled from the spec: the header \<open>xvid.h\<close> that declares these structures is not
  among the sources. Section 6 of the specification gives the codec's interface
  (three output planes and three strides with a colourspace; decoder statistics with a
  type, a width and a height; encoder statistics with a length). Each record has the
  fields the bridge names; every other field of the C structure is zero after the
  \<open>memset\<close> and is never touched by the bridge. The fields \<open>output\<close> and \<open>input\<close>
  are written \<open>output'\<close> and \<open>input'\<close>, and a parameter \<open>width\<close> or \<open>height\<close> of a
  function is written \<open>width'\<close> or \<open>height'\<close>, the plain names being taken.
\<close>

record xvid_gbl_init_t =
  version :: c_int
  cpu_flags :: c_int

record xvid_dec_create_t =
  version :: c_int
  width :: c_int
  height :: c_int
  handle :: addr

record xvid_image_t =
  csp :: c_int
  plane :: "addr list"
  stride :: "c_int list"

record xvid_dec_frame_t =
  version :: c_int
  general :: c_int
  bitstream :: addr
  length :: c_int
  output' :: xvid_image_t

record xvid_dec_stats_t =
  version :: c_int
  type :: c_int
  data_vol_width :: c_int
  data_vol_height :: c_int

record xvid_enc_create_t =
  version :: c_int
  width :: c_int
  height :: c_int
  fincr :: c_int
  fbase :: c_int
  zones :: addr
  num_zones :: c_int
  plugins :: addr
  num_plugins :: c_int
  num_threads :: c_int
  max_bframes :: c_int
  max_key_interval :: c_int
  global :: c_int
  handle :: addr

record xvid_enc_frame_t =
  version :: c_int
  type :: c_int
  bitstream :: addr
  length :: c_int
  input' :: xvid_image_t
  vop_flags :: c_int
  vol_flags :: c_int
  motion :: c_int
  quant :: c_int

record xvid_enc_stats_t =
  version :: c_int
  length :: c_int

subsection \<open>Calls that leave the bridge\<close>

datatype xvid_dec_opt =
    XVID_DEC_CREATE xvid_dec_create_t
  | XVID_DEC_DECODE xvid_dec_frame_t xvid_dec_stats_t
  | XVID_DEC_DESTROY

datatype xvid_enc_opt =
    XVID_ENC_CREATE xvid_enc_create_t
  | XVID_ENC_ENCODE xvid_enc_frame_t xvid_enc_stats_t
  | XVID_ENC_DESTROY

datatype object = Obj_decoder_state | Obj_encoder_state

datatype call =
    Call_malloc object
  | Call_free addr
  | Call_xvid_global addr c_int xvid_gbl_init_t addr
  | Call_xvid_decore addr xvid_dec_opt
  | Call_xvid_encore addr xvid_enc_opt
  | Call_lame_init
  | Call_lame_set_num_channels addr c_int
  | Call_lame_set_in_samplerate addr c_int
  | Call_lame_set_out_samplerate addr c_int
  | Call_lame_set_brate addr c_int
  | Call_lame_set_bWriteVbrTag addr c_int
  | Call_lame_init_params addr
  | Call_lame_close addr

text \<open>
  The environment: the constants of \<open>xvid.h\<close> that the bridge uses, and the answers of
  the libraries. Each answer is a function of the trace that ends with the call.
  \<open>xvid_dec_create_handle\<close> and \<open>xvid_enc_create_handle\<close> are what the library
  leaves in the \<open>handle\<close> field of the creation structure, \<open>xvid_dec_stats\<close> and
  \<open>xvid_enc_stats\<close> what it leaves in the statistics structure.
\<close>

record env =
  XVID_VERSION :: c_int
  XVID_CSP_I420 :: c_int
  XVID_TYPE_IVOP :: c_int
  XVID_TYPE_AUTO :: c_int
  malloc_ret :: "call list \<Rightarrow> addr"
  xvid_decore_ret :: "call list \<Rightarrow> c_int"
  xvid_dec_create_handle :: "call list \<Rightarrow> addr"
  xvid_dec_stats :: "call list \<Rightarrow> xvid_dec_stats_t"
  xvid_encore_ret :: "call list \<Rightarrow> c_int"
  xvid_enc_create_handle :: "call list \<Rightarrow> addr"
  xvid_enc_stats :: "call list \<Rightarrow> xvid_enc_stats_t"
  lame_init_ret :: "call list \<Rightarrow> addr"
  lame_init_params_ret :: "call list \<Rightarrow> c_int"

subsection \<open>The world: trace and memory\<close>

record world =
  trace :: "call list"
  allocated :: "addr set"
  mem :: "addr \<Rightarrow> 32 word"

text \<open>
  The addresses of the fields of the session object at \<open>p\<close>, for \<open>decoder_state\<close> and
  \<open>encoder_state\<close> alike.
\<close>

definition handle_field :: "addr \<Rightarrow> addr" where
  "handle_field p = p"

definition width_field :: "addr \<Rightarrow> addr" where
  "width_field p = p + 4"

definition height_field :: "addr \<Rightarrow> addr" where
  "height_field p = p + 8"

text \<open>The session object that the memory holds at \<open>p\<close>, read as either structure.\<close>

definition decoder_mem :: "world \<Rightarrow> addr \<Rightarrow> decoder_state" where
  "decoder_mem w p =
     \<lparr>decoder_handle = mem w (handle_field p),
      decoder_state.width = mem w (width_field p),
      decoder_state.height = mem w (height_field p)\<rparr>"

definition encoder_mem :: "world \<Rightarrow> addr \<Rightarrow> encoder_state" where
  "encoder_mem w p =
     \<lparr>encoder_handle = mem w (handle_field p),
      encoder_state.width = mem w (width_field p),
      encoder_state.height = mem w (height_field p)\<rparr>"

datatype fault = NullDereference | InvalidPointer | InvalidFree

text \<open>A function of the bridge either faults, in the world it had reached, or returns.\<close>

type_synonym 'a result = "(fault \<times> world) + ('a \<times> world)"

definition seq :: "'a result \<Rightarrow> ('a \<Rightarrow> world \<Rightarrow> 'b result) \<Rightarrow> 'b result" where
  "seq m k = (case m of Inl f \<Rightarrow> Inl f | Inr (x, w) \<Rightarrow> k x w)"

definition log_call :: "call \<Rightarrow> world \<Rightarrow> world" where
  "log_call c w = w\<lparr>trace := trace w @ [c]\<rparr>"

definition access :: "addr \<Rightarrow> world \<Rightarrow> fault option" where
  "access p w =
     (if p = NULL then Some NullDereference
      else if p \<notin> allocated w then Some InvalidPointer
      else None)"

definition load_decoder :: "addr \<Rightarrow> world \<Rightarrow> decoder_state result" where
  "load_decoder p w =
     (case access p w of Some f \<Rightarrow> Inl (f, w) | None \<Rightarrow> Inr (decoder_mem w p, w))"

definition load_encoder :: "addr \<Rightarrow> world \<Rightarrow> encoder_state result" where
  "load_encoder p w =
     (case access p w of Some f \<Rightarrow> Inl (f, w) | None \<Rightarrow> Inr (encoder_mem w p, w))"

text \<open>An assignment \<open>p->field = v\<close> to a field of the session object at \<open>p\<close>.\<close>

definition store_field :: "addr \<Rightarrow> (addr \<Rightarrow> addr) \<Rightarrow> 32 word \<Rightarrow> world \<Rightarrow> unit result" where
  "store_field p field v w =
     (case access p w of
        Some f \<Rightarrow> Inl (f, w)
      | None \<Rightarrow> Inr ((), w\<lparr>mem := (mem w)(field p := v)\<rparr>))"

text \<open>An assignment \<open>*p = v\<close> through a pointer to \<open>int\<close>, into the same memory.\<close>

definition store_int :: "addr \<Rightarrow> c_int \<Rightarrow> world \<Rightarrow> unit result" where
  "store_int p v w =
     (if p = NULL then Inl (NullDereference, w)
      else Inr ((), w\<lparr>mem := (mem w)(p := v)\<rparr>))"

text \<open>
  \<open>malloc\<close> returns the address the environment chooses, \<open>NULL\<close> when it fails; a
  block that it returns is live. \<open>free\<close> of \<open>NULL\<close> does nothing, \<open>free\<close> of a live
  block ends its life, and any other \<open>free\<close> is a fault.
\<close>

definition malloc :: "env \<Rightarrow> object \<Rightarrow> world \<Rightarrow> addr \<times> world" where
  "malloc e obj w =
     (let w1 = log_call (Call_malloc obj) w;
          p = malloc_ret e (trace w1)
      in (p, if p = NULL then w1 else w1\<lparr>allocated := insert p (allocated w1)\<rparr>))"

definition free :: "addr \<Rightarrow> world \<Rightarrow> unit result" where
  "free p w =
     (let w1 = log_call (Call_free p) w
      in if p = NULL then Inr ((), w1)
         else if p \<in> allocated w then Inr ((), w1\<lparr>allocated := allocated w - {p}\<rparr>)
         else Inl (InvalidFree, w1))"

subsection \<open>xvid-bridge.c: the decoder\<close>

definition init_decoder :: "env \<Rightarrow> c_int \<Rightarrow> c_int \<Rightarrow> world \<Rightarrow> addr result" where
  "init_decoder e width' height' w =
     (let xvid_init = \<lparr>xvid_gbl_init_t.version = XVID_VERSION e, cpu_flags = 0\<rparr>;
          w1 = log_call (Call_xvid_global NULL 0 xvid_init NULL) w;
          dec_create = \<lparr>xvid_dec_create_t.version = XVID_VERSION e,
                        xvid_dec_create_t.width = 0,
                        xvid_dec_create_t.height = 0,
                        xvid_dec_create_t.handle = NULL\<rparr>;
          (state, w2) = malloc e Obj_decoder_state w1;
          w3 = log_call (Call_xvid_decore NULL (XVID_DEC_CREATE dec_create)) w2;
          ret = xvid_decore_ret e (trace w3);
          dec_create_handle = xvid_dec_create_handle e (trace w3)
      in if ret \<noteq> 0 then
           seq (free state w3) (\<lambda>_ w4. Inr (NULL, w4))
         else
           seq (store_field state handle_field dec_create_handle w3) (\<lambda>_ w4.
           seq (store_field state width_field width' w4) (\<lambda>_ w5.
           seq (store_field state height_field height' w5) (\<lambda>_ w6.
           Inr (state, w6)))))"

definition decode_frame ::
  "env \<Rightarrow> addr \<Rightarrow> addr \<Rightarrow> c_int \<Rightarrow> addr \<Rightarrow> addr \<Rightarrow> addr \<Rightarrow> addr \<Rightarrow> world \<Rightarrow> c_int result" where
  "decode_frame e state input_buf input_size output_buf out_type out_width out_height w =
     seq (load_decoder state w) (\<lambda>s w0.
       let dec_frame =
             \<lparr>xvid_dec_frame_t.version = XVID_VERSION e,
              general = 0,
              xvid_dec_frame_t.bitstream = input_buf,
              xvid_dec_frame_t.length = input_size,
              output' =
                \<lparr>csp = XVID_CSP_I420 e,
                 plane =
                   [output_buf,
                    output_buf + decoder_state.width s * decoder_state.height s,
                    output_buf + c_div (decoder_state.width s * decoder_state.height s * 5) 4],
                 stride =
                   [decoder_state.width s,
                    c_div (decoder_state.width s) 2,
                    c_div (decoder_state.width s) 2]\<rparr>\<rparr>;
           dec_stats0 =
             \<lparr>xvid_dec_stats_t.version = XVID_VERSION e,
              xvid_dec_stats_t.type = 0,
              data_vol_width = 0,
              data_vol_height = 0\<rparr>;
           w1 = log_call (Call_xvid_decore (decoder_handle s) (XVID_DEC_DECODE dec_frame dec_stats0)) w0;
           ret = xvid_decore_ret e (trace w1);
           dec_stats = xvid_dec_stats e (trace w1)
       in
       seq (if xvid_dec_stats_t.type dec_stats = - 1 then
              seq (store_field state width_field (data_vol_width dec_stats) w1) (\<lambda>_.
                   store_field state height_field (data_vol_height dec_stats))
            else Inr ((), w1)) (\<lambda>_ w2.
       seq (if out_type \<noteq> NULL then
              store_int out_type (xvid_dec_stats_t.type dec_stats) w2
            else Inr ((), w2)) (\<lambda>_ w3.
       seq (if out_width \<noteq> NULL then
              seq (load_decoder state w3) (\<lambda>s3. store_int out_width (decoder_state.width s3))
            else Inr ((), w3)) (\<lambda>_ w4.
       seq (if out_height \<noteq> NULL then
              seq (load_decoder state w4) (\<lambda>s4. store_int out_height (decoder_state.height s4))
            else Inr ((), w4)) (\<lambda>_ w5.
       Inr (ret, w5))))))"

definition close_decoder :: "addr \<Rightarrow> world \<Rightarrow> unit result" where
  "close_decoder state w =
     (if state \<noteq> NULL then
        seq (load_decoder state w) (\<lambda>s w0.
          free state
            (if decoder_handle s \<noteq> NULL then
               log_call (Call_xvid_decore (decoder_handle s) XVID_DEC_DESTROY) w0
             else w0))
      else Inr ((), w))"

subsection \<open>xvid-bridge.c: the encoder\<close>

definition init_encoder ::
  "env \<Rightarrow> c_int \<Rightarrow> c_int \<Rightarrow> c_int \<Rightarrow> c_int \<Rightarrow> c_int \<Rightarrow> world \<Rightarrow> addr result" where
  "init_encoder e width' height' bitrate fps_num fps_den w =
     (let xvid_init = \<lparr>xvid_gbl_init_t.version = XVID_VERSION e, cpu_flags = 0\<rparr>;
          w1 = log_call (Call_xvid_global NULL 0 xvid_init NULL) w;
          enc_create =
            \<lparr>xvid_enc_create_t.version = XVID_VERSION e,
             xvid_enc_create_t.width = width',
             xvid_enc_create_t.height = height',
             fincr = fps_den,
             fbase = fps_num,
             zones = NULL,
             num_zones = 0,
             plugins = NULL,
             num_plugins = 0,
             num_threads = 0,
             max_bframes = 0,
             max_key_interval = 250,
             global = 0,
             xvid_enc_create_t.handle = NULL\<rparr>;
          (state, w2) = malloc e Obj_encoder_state w1;
          w3 = log_call (Call_xvid_encore NULL (XVID_ENC_CREATE enc_create)) w2;
          ret = xvid_encore_ret e (trace w3);
          enc_create_handle = xvid_enc_create_handle e (trace w3)
      in if ret \<noteq> 0 then
           seq (free state w3) (\<lambda>_ w4. Inr (NULL, w4))
         else
           seq (store_field state handle_field enc_create_handle w3) (\<lambda>_ w4.
           seq (store_field state width_field width' w4) (\<lambda>_ w5.
           seq (store_field state height_field height' w5) (\<lambda>_ w6.
           Inr (state, w6)))))"

definition encode_frame ::
  "env \<Rightarrow> addr \<Rightarrow> addr \<Rightarrow> addr \<Rightarrow> c_int \<Rightarrow> c_int \<Rightarrow> world \<Rightarrow> c_int result" where
  "encode_frame e state yuv_input output_buf output_buf_size force_keyframe w =
     seq (load_encoder state w) (\<lambda>s w0.
       let enc_frame =
             \<lparr>xvid_enc_frame_t.version = XVID_VERSION e,
              xvid_enc_frame_t.type =
                (if force_keyframe \<noteq> 0 then XVID_TYPE_IVOP e else XVID_TYPE_AUTO e),
              xvid_enc_frame_t.bitstream = output_buf,
              xvid_enc_frame_t.length = output_buf_size,
              input' =
                \<lparr>csp = XVID_CSP_I420 e,
                 plane =
                   [yuv_input,
                    yuv_input + encoder_state.width s * encoder_state.height s,
                    yuv_input + c_div (encoder_state.width s * encoder_state.height s * 5) 4],
                 stride =
                   [encoder_state.width s,
                    c_div (encoder_state.width s) 2,
                    c_div (encoder_state.width s) 2]\<rparr>,
              vop_flags = 0,
              vol_flags = 0,
              motion = 0,
              quant = 0\<rparr>;
           enc_stats0 =
             \<lparr>xvid_enc_stats_t.version = XVID_VERSION e, xvid_enc_stats_t.length = 0\<rparr>;
           w1 = log_call (Call_xvid_encore (encoder_handle s) (XVID_ENC_ENCODE enc_frame enc_stats0)) w0;
           ret = xvid_encore_ret e (trace w1);
           enc_stats = xvid_enc_stats e (trace w1)
       in if 0 <s ret then Inr (xvid_enc_stats_t.length enc_stats, w1)
          else Inr (ret, w1))"

definition close_encoder :: "addr \<Rightarrow> world \<Rightarrow> unit result" where
  "close_encoder state w =
     (if state \<noteq> NULL then
        seq (load_encoder state w) (\<lambda>s w0.
          free state
            (if encoder_handle s \<noteq> NULL then
               log_call (Call_xvid_encore (encoder_handle s) XVID_ENC_DESTROY) w0
             else w0))
      else Inr ((), w))"

subsection \<open>lame-bridge.c\<close>

text \<open>
  The bridge never looks inside the \<open>lame_global_flags\<close> it is given: it passes the
  pointer on. No function of this file can fault by itself. The pointer \<open>gfp\<close> of the source
  is written \<open>gfp'\<close>.
\<close>

definition init_lame :: "env \<Rightarrow> c_int \<Rightarrow> c_int \<Rightarrow> c_int \<Rightarrow> world \<Rightarrow> addr \<times> world" where
  "init_lame e number_of_channels sample_rate bitrate w =
     (let w1 = log_call Call_lame_init w;
          gfp' = lame_init_ret e (trace w1);
          w2 = log_call (Call_lame_set_num_channels gfp' number_of_channels) w1;
          w3 = log_call (Call_lame_set_in_samplerate gfp' sample_rate) w2;
          w4 = log_call (Call_lame_set_out_samplerate gfp' sample_rate) w3;
          w5 = log_call (Call_lame_set_brate gfp' (c_div bitrate 1000)) w4;
          w6 = log_call (Call_lame_set_bWriteVbrTag gfp' 0) w5;
          w7 = log_call (Call_lame_init_params gfp') w6;
          ret_code = lame_init_params_ret e (trace w7)
      in (gfp', w7))"

definition close_lame :: "addr \<Rightarrow> world \<Rightarrow> world" where
  "close_lame gfp' w = log_call (Call_lame_close gfp') w"

subsection \<open>Observing a result\<close>

text \<open>A pointer through which a session object can be read and written.\<close>

definition valid_ptr :: "addr \<Rightarrow> world \<Rightarrow> bool" where
  "valid_ptr p w \<longleftrightarrow> p \<noteq> NULL \<and> p \<in> allocated w"

fun returned :: "'a result \<Rightarrow> 'a option" where
  "returned (Inl _) = None"
| "returned (Inr (x, _)) = Some x"

fun faulted :: "'a result \<Rightarrow> fault option" where
  "faulted (Inl (f, _)) = Some f"
| "faulted (Inr _) = None"

fun world_of :: "'a result \<Rightarrow> world" where
  "world_of (Inl (_, w)) = w"
| "world_of (Inr (_, w)) = w"

text \<open>
  The four bytes of an \<open>int\<close> at \<open>p\<close> do not overlap the twelve bytes of the session
  object at \<open>state\<close>, and the four bytes at \<open>p\<close> do not overlap the four bytes at \<open>q\<close>.
\<close>

definition outside :: "addr \<Rightarrow> addr \<Rightarrow> bool" where
  "outside p state \<longleftrightarrow> 12 \<le> unat (p - state) \<and> unat (p - state) \<le> 2 ^ 32 - 4"

definition apart :: "addr \<Rightarrow> addr \<Rightarrow> bool" where
  "apart p q \<longleftrightarrow> 4 \<le> unat (p - q) \<and> unat (p - q) \<le> 2 ^ 32 - 4"

text \<open>The picture that a decode or an encode call hands to Xvid.\<close>

fun call_image :: "call \<Rightarrow> xvid_image_t option" where
  "call_image (Call_xvid_decore h (XVID_DEC_DECODE f st)) = Some (output' f)"
| "call_image (Call_xvid_encore h (XVID_ENC_ENCODE f st)) = Some (input' f)"
| "call_image _ = None"

text \<open>
  The size of the buffer that a picture of \<open>h\<close> rows takes: the offset of its V plane
  from its Y plane, and \<open>h / 2\<close> rows of the V plane's stride.
\<close>

fun image_size :: "xvid_image_t option \<Rightarrow> int \<Rightarrow> int option" where
  "image_size None h = None"
| "image_size (Some img) h =
     Some (sint (plane img ! 2 - plane img ! 0) + sint (stride img ! 2) * (h div 2))"

subsection \<open>A sample environment\<close>

text \<open>
  Concrete answers of the libraries, to run the bridge on. The allocator returns
  address 4096, Xvid creates its contexts without error, every decode step reports the
  header-only type \<open>- 1\<close> with a picture of 352 by 288, every encode step answers 57 and
  leaves the length 1234 in its statistics, and LAME rejects the parameters.
\<close>

fun example_encore_ret :: "call list \<Rightarrow> c_int" where
  "example_encore_ret [] = 0"
| "example_encore_ret [Call_xvid_encore h (XVID_ENC_ENCODE f st)] = 57"
| "example_encore_ret [c] = 0"
| "example_encore_ret (c # cs) = example_encore_ret cs"

definition example_env :: env where
  "example_env =
     \<lparr>XVID_VERSION = 66311,
      XVID_CSP_I420 = 2,
      XVID_TYPE_IVOP = 1,
      XVID_TYPE_AUTO = 0,
      malloc_ret = (\<lambda>_. 4096),
      xvid_decore_ret = (\<lambda>_. 0),
      xvid_dec_create_handle = (\<lambda>_. 8192),
      xvid_dec_stats = (\<lambda>_.
        \<lparr>xvid_dec_stats_t.version = 66311,
         xvid_dec_stats_t.type = - 1,
         data_vol_width = 352,
         data_vol_height = 288\<rparr>),
      xvid_encore_ret = example_encore_ret,
      xvid_enc_create_handle = (\<lambda>_. 12288),
      xvid_enc_stats = (\<lambda>_.
        \<lparr>xvid_enc_stats_t.version = 66311, xvid_enc_stats_t.length = 1234\<rparr>),
      lame_init_ret = (\<lambda>_. 16384),
      lame_init_params_ret = (\<lambda>_. - 1)\<rparr>"

text \<open>The same environment with an allocator that has no memory left.\<close>

definition example_env_oom :: env where
  "example_env_oom = example_env\<lparr>malloc_ret := (\<lambda>_. NULL)\<rparr>"

text \<open>The same environment with decode and encode steps that answer the error \<open>- 1\<close>.\<close>

definition example_env_fail :: env where
  "example_env_fail =
     example_env\<lparr>xvid_decore_ret := (\<lambda>_. - 1), xvid_encore_ret := (\<lambda>_. - 1)\<rparr>"

text \<open>The same environment with decode steps that report a picture, of type 1.\<close>

definition example_env_picture :: env where
  "example_env_picture =
     example_env\<lparr>xvid_dec_stats := (\<lambda>_.
        \<lparr>xvid_dec_stats_t.version = 66311,
         xvid_dec_stats_t.type = 1,
         data_vol_width = 0,
         data_vol_height = 0\<rparr>)\<rparr>"

text \<open>A world in which nothing has happened yet.\<close>

definition start_world :: world where
  "start_world = \<lparr>trace = [], allocated = {}, mem = (\<lambda>_. 0)\<rparr>"

text \<open>
  A world with a session of 176 by 144 at 4096, whose handle is 8192, and another one
  of the same size at 4112, whose handle is 12288. Every other cell holds 0.
\<close>

definition example_world :: world where
  "example_world =
     \<lparr>trace = [],
      allocated = {4096, 4112},
      mem = (\<lambda>_. 0)
        (4096 := 8192, 4100 := 176, 4104 := 144,
         4112 := 12288, 4116 := 176, 4120 := 144)\<rparr>"

subsection \<open>The memory after a decode call\<close>

text \<open>
  What \<open>decode_frame\<close> leaves in the memory \<open>m\<close> of a live session at \<open>state\<close>, store
  after store, when \<open>t\<close> is the trace that ends with its decode request: the two stores
  of lines 84 and 85 when the statistics carry the type \<open>- 1\<close>, then the three guarded
  stores of lines 88 to 96, each of which reads the memory the stores before it left.
\<close>

definition after_decode ::
  "env \<Rightarrow> addr \<Rightarrow> addr \<Rightarrow> addr \<Rightarrow> addr \<Rightarrow> call list \<Rightarrow> (addr \<Rightarrow> 32 word) \<Rightarrow> addr \<Rightarrow> 32 word" where
  "after_decode e state out_type out_width out_height t m =
     (let dec_stats = xvid_dec_stats e t;
          m1 = (if xvid_dec_stats_t.type dec_stats = - 1
                then m(state + 4 := data_vol_width dec_stats,
                       state + 8 := data_vol_height dec_stats)
                else m);
          m2 = (if out_type \<noteq> NULL then m1(out_type := xvid_dec_stats_t.type dec_stats)
                else m1);
          m3 = (if out_width \<noteq> NULL then m2(out_width := m2 (state + 4)) else m2)
      in if out_height \<noteq> NULL then m3(out_height := m3 (state + 8)) else m3)"

section \<open>Properties\<close>

lemmas bridge_defs =
  seq_def load_decoder_def load_encoder_def store_field_def decoder_mem_def encoder_mem_def
  handle_field_def width_field_def height_field_def
  access_def store_int_def log_call_def valid_ptr_def Let_def

lemmas example_defs =
  example_env_def example_env_oom_def example_env_fail_def example_env_picture_def
  start_world_def example_world_def NULL_def

subsection \<open>Arithmetic on 32-bit integers\<close>

lemma sint_word_of_int_32:
  "- (2 ^ 31) \<le> k \<Longrightarrow> k < 2 ^ 31 \<Longrightarrow> sint (word_of_int k :: 32 word) = k"
  by (simp add: sint_sbintrunc' signed_take_bit_int_eq_self)

lemma sint_bounds_32: "- (2 ^ 31) \<le> sint (b :: 32 word) \<and> sint b < 2 ^ 31"
  using sint_ge [of b] sint_lt [of b] by simp

lemma sint_c_div_1000: "sint (c_div b 1000) = sgn (sint b) * (\<bar>sint b\<bar> div 1000)"
proof -
  let ?q = "sgn (sint b) * (\<bar>sint b\<bar> div 1000)"
  have q: "sint b sdiv sint (1000 :: 32 word) = ?q"
    by (simp add: signed_divide_int_def)
  have "\<bar>sint b\<bar> div 1000 \<le> \<bar>sint b\<bar>"
    using zdiv_mono2 [of "\<bar>sint b\<bar>" 1 1000] by simp
  then have "- (2 ^ 31) \<le> ?q \<and> ?q < 2 ^ 31"
    using sint_bounds_32 [of b] by (cases "sint b < 0"; cases "sint b = 0"; simp; linarith)
  then have "sint (word_of_int ?q :: 32 word) = ?q"
    by (intro sint_word_of_int_32) simp_all
  then show ?thesis
    by (simp only: c_div_def q)
qed

lemma sdiv_exact: "(d::int) dvd k \<Longrightarrow> k sdiv d = k div d"
  by (simp add: signed_divide_int_eq_divide_int)

lemma c_div_exact:
  assumes "sint d dvd sint a"
  shows "c_div a d = word_of_int (sint a div sint d)"
  using assms by (simp add: c_div_def sdiv_exact)

lemma i420_chroma_offset:
  fixes wd ht :: "32 word"
  assumes "even (sint wd)" "even (sint ht)"
    and "- (2 ^ 31) \<le> sint wd * sint ht * 5" "sint wd * sint ht * 5 < 2 ^ 31"
  shows "c_div (wd * ht * 5) 4 = word_of_int (sint wd * sint ht + sint wd * sint ht div 4)"
proof -
  obtain a b where ab: "sint wd = 2 * a" "sint ht = 2 * b"
    using assms(1,2) by (auto elim!: evenE)
  have "wd * ht * 5 = word_of_int (sint wd * sint ht * 5)"
    by simp
  then have s: "sint (wd * ht * 5) = sint wd * sint ht * 5"
    using assms(3,4) sint_word_of_int_32 [of "sint wd * sint ht * 5"] by simp
  have "c_div (wd * ht * 5) 4 = word_of_int (sint (wd * ht * 5) div sint (4 :: 32 word))"
    by (rule c_div_exact) (simp add: s ab)
  also have "sint (wd * ht * 5) div sint (4 :: 32 word) =
      sint wd * sint ht + sint wd * sint ht div 4"
    by (simp add: s ab)
  finally show ?thesis .
qed

lemma i420_stride:
  fixes wd :: "32 word"
  assumes "even (sint wd)"
  shows "c_div wd 2 = word_of_int (sint wd div 2)"
  using c_div_exact [of 2 wd] assms by simp

lemma i420_total:
  fixes W H :: int
  assumes "even W" "even H"
  shows "W * H + W * H div 4 + (W div 2) * (H div 2) = W * H * 3 div 2"
proof -
  obtain a b where ab: "W = 2 * a" "H = 2 * b"
    using assms by (auto elim!: evenE)
  show ?thesis by (simp add: ab)
qed

lemma i420_layout:
  fixes wd ht :: "32 word"
  assumes "even (sint wd)" "even (sint ht)"
    and "- (2 ^ 31) \<le> sint wd * sint ht * 5" "sint wd * sint ht * 5 < 2 ^ 31"
  shows "\<lparr>csp = c,
          plane = [buf, buf + wd * ht, buf + c_div (wd * ht * 5) 4],
          stride = [wd, c_div wd 2, c_div wd 2]\<rparr> =
         \<lparr>csp = c,
          plane = [buf, buf + word_of_int (sint wd * sint ht),
                   buf + word_of_int (sint wd * sint ht + sint wd * sint ht div 4)],
          stride = [word_of_int (sint wd), word_of_int (sint wd div 2),
                    word_of_int (sint wd div 2)]\<rparr>"
  using i420_chroma_offset [OF assms] i420_stride [OF assms(1)] by simp

lemma i420_size:
  fixes wd ht :: "32 word"
  assumes "even (sint wd)" "even (sint ht)"
    and "- (2 ^ 31) \<le> sint wd * sint ht * 5" "sint wd * sint ht * 5 < 2 ^ 31"
  shows "sint (word_of_int (sint wd * sint ht + sint wd * sint ht div 4) :: 32 word) +
      sint (word_of_int (sint wd div 2) :: 32 word) * (sint ht div 2) =
    sint wd * sint ht * 3 div 2"
proof -
  obtain a b where ab: "sint wd = 2 * a" "sint ht = 2 * b"
    using assms(1,2) by (auto elim!: evenE)
  have v: "sint (word_of_int (sint wd * sint ht + sint wd * sint ht div 4) :: 32 word) =
      sint wd * sint ht + sint wd * sint ht div 4"
    using assms(3,4) by (intro sint_word_of_int_32) (simp_all add: ab)
  have "- (2 ^ 31) \<le> sint wd div 2 \<and> sint wd div 2 < 2 ^ 31"
    using sint_bounds_32 [of wd] by (simp add: ab)
  then have u: "sint (word_of_int (sint wd div 2) :: 32 word) = sint wd div 2"
    by (intro sint_word_of_int_32) simp_all
  show ?thesis
    unfolding v u using assms(1,2) by (rule i420_total)
qed

subsection \<open>Pointers that do not overlap\<close>

lemma outside_fields:
  assumes "outside p state"
  shows "p \<noteq> state" "p \<noteq> state + 4" "p \<noteq> state + 8"
    "state \<noteq> p" "state + 4 \<noteq> p" "state + 8 \<noteq> p"
  using assms by (auto simp add: outside_def)

lemma apart_neq:
  assumes "apart p q"
  shows "p \<noteq> q" "q \<noteq> p"
  using assms by (auto simp add: apart_def)

subsection \<open>The picture handed to Xvid\<close>

lemma decode_frame_image:
  assumes "valid_ptr state w"
  shows "call_image (last (trace (world_of
           (decode_frame e state input_buf input_size output_buf out_type out_width out_height w)))) =
         Some \<lparr>csp = XVID_CSP_I420 e,
               plane =
                 [output_buf,
                  output_buf + decoder_state.width (decoder_mem w state) *
                    decoder_state.height (decoder_mem w state),
                  output_buf + c_div (decoder_state.width (decoder_mem w state) *
                    decoder_state.height (decoder_mem w state) * 5) 4],
               stride =
                 [decoder_state.width (decoder_mem w state),
                  c_div (decoder_state.width (decoder_mem w state)) 2,
                  c_div (decoder_state.width (decoder_mem w state)) 2]\<rparr>"
  using assms by (simp add: decode_frame_def bridge_defs)

lemma encode_frame_image:
  assumes "valid_ptr state w"
  shows "call_image (last (trace (world_of
           (encode_frame e state yuv_input output_buf output_buf_size force_keyframe w)))) =
         Some \<lparr>csp = XVID_CSP_I420 e,
               plane =
                 [yuv_input,
                  yuv_input + encoder_state.width (encoder_mem w state) *
                    encoder_state.height (encoder_mem w state),
                  yuv_input + c_div (encoder_state.width (encoder_mem w state) *
                    encoder_state.height (encoder_mem w state) * 5) 4],
               stride =
                 [encoder_state.width (encoder_mem w state),
                  c_div (encoder_state.width (encoder_mem w state)) 2,
                  c_div (encoder_state.width (encoder_mem w state)) 2]\<rparr>"
  using assms by (simp add: encode_frame_def bridge_defs)

subsection \<open>decode_frame\<close>

lemma decode_frame_run:
  assumes "valid_ptr state w"
  shows "decode_frame e state input_buf input_size output_buf out_type out_width out_height w =
    (let s = decoder_mem w state;
         t = trace w @
         [Call_xvid_decore (decoder_handle s)
            (XVID_DEC_DECODE
               \<lparr>xvid_dec_frame_t.version = XVID_VERSION e,
                general = 0,
                xvid_dec_frame_t.bitstream = input_buf,
                xvid_dec_frame_t.length = input_size,
                output' =
                  \<lparr>csp = XVID_CSP_I420 e,
                   plane =
                     [output_buf,
                      output_buf + decoder_state.width s * decoder_state.height s,
                      output_buf + c_div (decoder_state.width s * decoder_state.height s * 5) 4],
                   stride =
                     [decoder_state.width s,
                      c_div (decoder_state.width s) 2,
                      c_div (decoder_state.width s) 2]\<rparr>\<rparr>
               \<lparr>xvid_dec_stats_t.version = XVID_VERSION e,
                xvid_dec_stats_t.type = 0,
                data_vol_width = 0,
                data_vol_height = 0\<rparr>)]
     in Inr (xvid_decore_ret e t,
             w\<lparr>trace := t,
               mem := after_decode e state out_type out_width out_height t (mem w)\<rparr>))"
  using assms by (simp add: decode_frame_def bridge_defs after_decode_def)

lemma after_decode_fields:
  assumes "out_type = NULL \<or> outside out_type state"
    and "out_width = NULL \<or> outside out_width state"
    and "out_height = NULL \<or> outside out_height state"
  shows "after_decode e state out_type out_width out_height t m state = m state"
    and "after_decode e state out_type out_width out_height t m (state + 4) =
      (if xvid_dec_stats_t.type (xvid_dec_stats e t) = - 1
       then data_vol_width (xvid_dec_stats e t) else m (state + 4))"
    and "after_decode e state out_type out_width out_height t m (state + 8) =
      (if xvid_dec_stats_t.type (xvid_dec_stats e t) = - 1
       then data_vol_height (xvid_dec_stats e t) else m (state + 8))"
  using assms
  by (cases "out_type = NULL"; cases "out_width = NULL"; cases "out_height = NULL";
      simp add: after_decode_def Let_def outside_fields)+

lemma after_decode_out_height:
  assumes "out_height \<noteq> NULL"
  shows "after_decode e state out_type out_width out_height t m out_height =
      after_decode e state out_type out_width NULL t m (state + 8)"
  using assms by (simp add: after_decode_def Let_def)

lemma after_decode_out_width:
  assumes "out_width \<noteq> NULL" and "out_height = NULL \<or> apart out_width out_height"
  shows "after_decode e state out_type out_width out_height t m out_width =
      after_decode e state out_type NULL NULL t m (state + 4)"
  using assms
  by (cases "out_height = NULL"; simp add: after_decode_def Let_def apart_neq)

lemma after_decode_out_type:
  assumes "out_type \<noteq> NULL" and "out_width = NULL \<or> apart out_type out_width"
    and "out_height = NULL \<or> apart out_type out_height"
  shows "after_decode e state out_type out_width out_height t m out_type =
      xvid_dec_stats_t.type (xvid_dec_stats e t)"
  using assms
  by (cases "out_width = NULL"; cases "out_height = NULL";
      simp add: after_decode_def Let_def apart_neq)

text \<open>
  Claim C1, as the specification states it, for every call: on a header-only result the
  session takes the parsed width and the caller is told the width of the session. The
  session at 4096 has its width at 4100. A call with \<open>out_type = 4100\<close>, the address of
  that width, and a header-only result of 352 by 288 stores the type \<open>- 1\<close> over the
  width that line 84 had just set: the session is left with the width \<open>- 1\<close>, and \<open>- 1\<close>
  is what the caller finds through \<open>out_width\<close>.
\<close>

theorem decode_frame_reports_counterexample:
  "valid_ptr 4096 example_world \<and>
   xvid_dec_stats_t.type (xvid_dec_stats example_env
     (trace (world_of
        (decode_frame example_env 4096 20480 100 65536 4100 24580 24584 example_world)))) = - 1 \<and>
   data_vol_width (xvid_dec_stats example_env
     (trace (world_of
        (decode_frame example_env 4096 20480 100 65536 4100 24580 24584 example_world)))) = 352 \<and>
   decoder_state.width (decoder_mem (world_of
        (decode_frame example_env 4096 20480 100 65536 4100 24580 24584 example_world)) 4096) = - 1 \<and>
   mem (world_of
        (decode_frame example_env 4096 20480 100 65536 4100 24580 24584 example_world)) 24580 = - 1 \<and>
   (- 1 :: c_int) \<noteq> 352"
  by (simp add: decode_frame_def bridge_defs example_defs)

text \<open>
  Claim C1, amended. A call of \<open>decode_frame\<close> on a live session hands Xvid one decode
  request whose three planes and strides are computed from the width and height the
  session had before the call, whatever the step reports and wherever the output
  pointers point. When no supplied output pointer overlaps the session object: a
  result of type \<open>- 1\<close> (header only) leaves the session with the width and height of
  the statistics, any other result leaves the session as it was, and the type of the
  statistics and the width and height of the session after the call are stored through
  \<open>out_type\<close>, \<open>out_width\<close> and \<open>out_height\<close>, each when it is not \<open>NULL\<close>. A value is
  read back here from a cell that no later store of the call overlaps.
\<close>

theorem decode_frame_reports:
  assumes v: "valid_ptr state w"
  shows
   "(let s = decoder_mem w state;
        r = decode_frame e state input_buf input_size output_buf out_type out_width out_height w;
        w' = world_of r;
        s' = decoder_mem w' state;
        dec_stats = xvid_dec_stats e (trace w')
    in faulted r = None \<and>
       trace w' = trace w @
         [Call_xvid_decore (decoder_handle s)
            (XVID_DEC_DECODE
               \<lparr>xvid_dec_frame_t.version = XVID_VERSION e,
                general = 0,
                xvid_dec_frame_t.bitstream = input_buf,
                xvid_dec_frame_t.length = input_size,
                output' =
                  \<lparr>csp = XVID_CSP_I420 e,
                   plane =
                     [output_buf,
                      output_buf + decoder_state.width s * decoder_state.height s,
                      output_buf + c_div (decoder_state.width s * decoder_state.height s * 5) 4],
                   stride =
                     [decoder_state.width s,
                      c_div (decoder_state.width s) 2,
                      c_div (decoder_state.width s) 2]\<rparr>\<rparr>
               \<lparr>xvid_dec_stats_t.version = XVID_VERSION e,
                xvid_dec_stats_t.type = 0,
                data_vol_width = 0,
                data_vol_height = 0\<rparr>)] \<and>
       ((out_type = NULL \<or> outside out_type state) \<and>
        (out_width = NULL \<or> outside out_width state) \<and>
        (out_height = NULL \<or> outside out_height state) \<longrightarrow>
          (xvid_dec_stats_t.type dec_stats = - 1 \<longrightarrow>
             decoder_state.width s' = data_vol_width dec_stats \<and>
             decoder_state.height s' = data_vol_height dec_stats) \<and>
          (xvid_dec_stats_t.type dec_stats \<noteq> - 1 \<longrightarrow> s' = s) \<and>
          (out_height \<noteq> NULL \<longrightarrow> mem w' out_height = decoder_state.height s') \<and>
          (out_width \<noteq> NULL \<and> (out_height = NULL \<or> apart out_width out_height) \<longrightarrow>
             mem w' out_width = decoder_state.width s') \<and>
          (out_type \<noteq> NULL \<and> (out_width = NULL \<or> apart out_type out_width) \<and>
           (out_height = NULL \<or> apart out_type out_height) \<longrightarrow>
             mem w' out_type = xvid_dec_stats_t.type dec_stats)))"
  unfolding Let_def
  apply (intro conjI)
    apply (simp add: decode_frame_run [OF v] Let_def)
   apply (simp add: decode_frame_run [OF v] Let_def decoder_mem_def handle_field_def
      width_field_def height_field_def)
  apply (rule impI)
  apply (elim conjE)
  subgoal premises s
  proof -
    have n: "NULL = NULL \<or> outside NULL state"
      by simp
    note f = after_decode_fields [OF s] after_decode_fields [OF s(1,2) n]
      after_decode_fields [OF s(1) n n]
    show ?thesis
      by (simp add: decode_frame_run [OF v] Let_def decoder_mem_def handle_field_def
          width_field_def height_field_def f after_decode_out_height
          after_decode_out_width after_decode_out_type)
  qed
  done

theorem decode_frame_reports_witness:
  "valid_ptr 4096 example_world \<and>
   outside 24576 4096 \<and> outside 24580 4096 \<and> outside 24584 4096 \<and>
   apart 24576 24580 \<and> apart 24576 24584 \<and> apart 24580 24584 \<and>
   (let w' = world_of
          (decode_frame example_env 4096 20480 100 65536 24576 24580 24584 example_world)
    in trace w' =
         [Call_xvid_decore 8192
            (XVID_DEC_DECODE
               \<lparr>xvid_dec_frame_t.version = 66311,
                general = 0,
                xvid_dec_frame_t.bitstream = 20480,
                xvid_dec_frame_t.length = 100,
                output' =
                  \<lparr>csp = 2,
                   plane = [65536, 65536 + 25344, 65536 + 31680],
                   stride = [176, 88, 88]\<rparr>\<rparr>
               \<lparr>xvid_dec_stats_t.version = 66311,
                xvid_dec_stats_t.type = 0,
                data_vol_width = 0,
                data_vol_height = 0\<rparr>)] \<and>
       decoder_state.width (decoder_mem w' 4096) = 352 \<and>
       decoder_state.height (decoder_mem w' 4096) = 288 \<and>
       mem w' 24576 = - 1 \<and>
       mem w' 24580 = 352 \<and>
       mem w' 24584 = 288)"
proof -
  have v: "valid_ptr 4096 example_world"
    by (simp add: example_defs valid_ptr_def)
  have o: "outside 24576 4096" "outside 24580 4096" "outside 24584 4096"
    "apart 24576 24580" "apart 24576 24584" "apart 24580 24584"
    by (simp_all add: outside_def apart_def)
  have m: "mem example_world 4096 = 8192" "mem example_world 4100 = 176"
    "mem example_world 4104 = 144"
    by (simp_all add: example_defs)
  show ?thesis
    using v o m decode_frame_reports [OF v, where e = example_env
      and input_buf = 20480 and input_size = 100 and output_buf = 65536
      and out_type = 24576 and out_width = 24580 and out_height = 24584]
    by (simp add: example_env_def NULL_def Let_def decoder_mem_def handle_field_def
        width_field_def height_field_def c_div_def signed_divide_int_def
        example_world_def [THEN arg_cong, of trace])
qed

text \<open>
  Claim C9, as the specification states it, for every call: the width and height of the
  session change only on the type \<open>- 1\<close>, and the handle never. The session at 4096
  has its handle at 4096 and its height at 4104. With a picture result, of type 1, a
  call with \<open>out_width = 4104\<close> stores the width 176 over the height 144, and a call
  with \<open>out_type = 4096\<close> stores the type 1 over the handle 8192.
\<close>

theorem decode_frame_session_update_counterexample:
  "valid_ptr 4096 example_world \<and>
   xvid_dec_stats_t.type (xvid_dec_stats example_env_picture
     (trace (world_of
        (decode_frame example_env_picture 4096 20480 100 65536 0 4104 0 example_world)))) = 1 \<and>
   (1 :: c_int) \<noteq> - 1 \<and>
   decoder_state.height (decoder_mem example_world 4096) = 144 \<and>
   decoder_state.height (decoder_mem (world_of
        (decode_frame example_env_picture 4096 20480 100 65536 0 4104 0 example_world)) 4096) =
     176 \<and>
   decoder_handle (decoder_mem example_world 4096) = 8192 \<and>
   decoder_handle (decoder_mem (world_of
        (decode_frame example_env_picture 4096 20480 100 65536 4096 0 0 example_world)) 4096) =
     1"
  by (simp add: decode_frame_def bridge_defs example_defs)

text \<open>
  Claim C9, amended. In a call of \<open>decode_frame\<close> on a live session no block is
  allocated or freed, and the world after the call is the same whatever result code
  the decode step answers. When no supplied output pointer overlaps the session
  object, the session changes exactly when the statistics carry the type \<open>- 1\<close>, and
  then only in its width and its height, which become those of the statistics; its
  decoder handle stays.
\<close>

theorem decode_frame_session_update:
  assumes v: "valid_ptr state w"
  shows
   "(let s = decoder_mem w state;
        r = decode_frame e state input_buf input_size output_buf out_type out_width out_height w;
        w' = world_of r;
        dec_stats = xvid_dec_stats e (trace w')
    in faulted r = None \<and>
       allocated w' = allocated w \<and>
       world_of (decode_frame (e\<lparr>xvid_decore_ret := any_ret\<rparr>) state input_buf input_size
                   output_buf out_type out_width out_height w) = w' \<and>
       ((out_type = NULL \<or> outside out_type state) \<and>
        (out_width = NULL \<or> outside out_width state) \<and>
        (out_height = NULL \<or> outside out_height state) \<longrightarrow>
          decoder_mem w' state =
            (if xvid_dec_stats_t.type dec_stats = - 1 then
               s\<lparr>decoder_state.width := data_vol_width dec_stats,
                 decoder_state.height := data_vol_height dec_stats\<rparr>
             else s) \<and>
          decoder_handle (decoder_mem w' state) = decoder_handle s))"
  unfolding Let_def
  apply (intro conjI)
     apply (simp add: decode_frame_run [OF v] Let_def)
    apply (simp add: decode_frame_run [OF v] Let_def)
   apply (simp add: decode_frame_run [OF v] Let_def after_decode_def)
  apply (rule impI)
  apply (elim conjE)
  subgoal premises s
    by (simp add: decode_frame_run [OF v] Let_def decoder_mem_def handle_field_def
        width_field_def height_field_def after_decode_fields [OF s])
  done

theorem decode_frame_session_update_witness:
  "valid_ptr 4096 example_world \<and>
   outside 24576 4096 \<and> outside 24580 4096 \<and> outside 24584 4096 \<and>
   (let r = decode_frame example_env_fail 4096 20480 100 65536 24576 24580 24584 example_world
    in returned r = Some (- 1) \<and>
       decoder_mem (world_of r) 4096 = \<lparr>decoder_handle = 8192, width = 352, height = 288\<rparr> \<and>
       allocated (world_of r) = {4096, 4112})"
proof -
  have v: "valid_ptr 4096 example_world"
    by (simp add: example_defs valid_ptr_def)
  have o: "outside 24576 4096" "outside 24580 4096" "outside 24584 4096"
    by (simp_all add: outside_def)
  have r: "returned (decode_frame example_env_fail 4096 20480 100 65536 24576 24580 24584
      example_world) = Some (- 1)"
    by (simp add: decode_frame_run [OF v] Let_def example_env_fail_def)
  have m: "decoder_mem example_world 4096 = \<lparr>decoder_handle = 8192, width = 176, height = 144\<rparr>"
    by (simp add: decoder_mem_def handle_field_def width_field_def height_field_def
        example_defs)
  have a: "allocated example_world = {4096, 4112}"
    by (simp add: example_defs)
  show ?thesis
    using v o r m a decode_frame_session_update [OF v, where e = example_env_fail
      and input_buf = 20480 and input_size = 100 and output_buf = 65536
      and out_type = 24576 and out_width = 24580 and out_height = 24584
      and any_ret = "xvid_decore_ret example_env"]
    by (simp add: example_env_fail_def example_env_def Let_def)
qed

text \<open>
  Claim C10. Whichever of \<open>out_type\<close>, \<open>out_width\<close> and \<open>out_height\<close> are \<open>NULL\<close>, a
  call of \<open>decode_frame\<close> on a live session does not fault, issues exactly one decode
  request on the handle of the session, and returns the result code of that request.
  A cell that no non-null output pointer names, the cell at \<open>NULL\<close> among them, is
  left as it was, unless it is the width or the height of the session and the
  statistics carry the type \<open>- 1\<close>: then it holds the width or the height of the
  statistics.
\<close>

theorem decode_frame_null_outputs:
  "valid_ptr state w \<Longrightarrow>
   (let r = decode_frame e state input_buf input_size output_buf out_type out_width out_height w;
        w' = world_of r;
        dec_stats = xvid_dec_stats e (trace w')
    in returned r = Some (xvid_decore_ret e (trace w')) \<and>
       (\<exists>f st. trace w' =
          trace w @ [Call_xvid_decore (decoder_handle (decoder_mem w state)) (XVID_DEC_DECODE f st)]) \<and>
       (\<forall>p. p = NULL \<or> p \<notin> {out_type, out_width, out_height} \<longrightarrow>
          mem w' p =
            (if xvid_dec_stats_t.type dec_stats = - 1 \<and> p = height_field state
               then data_vol_height dec_stats
             else if xvid_dec_stats_t.type dec_stats = - 1 \<and> p = width_field state
               then data_vol_width dec_stats
             else mem w p)))"
  by (simp add: decode_frame_def bridge_defs)

theorem decode_frame_null_outputs_witness:
  "valid_ptr 4096 example_world \<and>
   (let r = decode_frame example_env 4096 20480 100 65536 NULL 24580 NULL example_world
    in returned r = Some 0 \<and>
       (\<exists>f st. trace (world_of r) = [Call_xvid_decore 8192 (XVID_DEC_DECODE f st)]) \<and>
       mem (world_of r) NULL = 0 \<and>
       mem (world_of r) 24576 = 0)"
  using decode_frame_null_outputs [where state = 4096 and w = example_world and e = example_env
      and input_buf = 20480 and input_size = 100 and output_buf = 65536
      and out_type = NULL and out_width = 24580 and out_height = NULL]
  by (simp add: example_defs valid_ptr_def Let_def decoder_mem_def handle_field_def
      width_field_def height_field_def)

subsection \<open>The plane layout\<close>

lemma decode_frame_layout:
  assumes "valid_ptr state w"
    and "sint (decoder_state.width (decoder_mem w state)) = W"
    and "sint (decoder_state.height (decoder_mem w state)) = H"
    and "even W" and "even H"
    and "- (2 ^ 31) \<le> W * H * 5" and "W * H * 5 < 2 ^ 31"
  shows "call_image (last (trace (world_of
        (decode_frame e state input_buf input_size output_buf out_type out_width out_height w)))) =
      Some \<lparr>csp = XVID_CSP_I420 e,
            plane = [output_buf,
                     output_buf + word_of_int (W * H),
                     output_buf + word_of_int (W * H + W * H div 4)],
            stride = [word_of_int W, word_of_int (W div 2), word_of_int (W div 2)]\<rparr> \<and>
    image_size (call_image (last (trace (world_of
        (decode_frame e state input_buf input_size output_buf out_type out_width out_height w))))) H =
      Some (W * H * 3 div 2)"
proof -
  let ?s = "decoder_mem w state"
  have d: "even (sint (decoder_state.width ?s))" "even (sint (decoder_state.height ?s))"
      "- (2 ^ 31) \<le> sint (decoder_state.width ?s) * sint (decoder_state.height ?s) * 5"
      "sint (decoder_state.width ?s) * sint (decoder_state.height ?s) * 5 < 2 ^ 31"
    using assms by simp_all
  have img: "call_image (last (trace (world_of
        (decode_frame e state input_buf input_size output_buf out_type out_width out_height w)))) =
      Some \<lparr>csp = XVID_CSP_I420 e,
            plane = [output_buf,
                     output_buf + word_of_int (W * H),
                     output_buf + word_of_int (W * H + W * H div 4)],
            stride = [word_of_int W, word_of_int (W div 2), word_of_int (W div 2)]\<rparr>"
    unfolding decode_frame_image [OF assms(1)] i420_layout [OF d] assms(2,3) ..
  have size: "sint (word_of_int (W * H + W * H div 4) :: 32 word) +
      sint (word_of_int (W div 2) :: 32 word) * (H div 2) = W * H * 3 div 2"
    using i420_size [OF d] unfolding assms(2,3) .
  show ?thesis
    unfolding img using size by simp
qed

lemma encode_frame_layout:
  assumes "valid_ptr state w"
    and "sint (encoder_state.width (encoder_mem w state)) = W"
    and "sint (encoder_state.height (encoder_mem w state)) = H"
    and "even W" and "even H"
    and "- (2 ^ 31) \<le> W * H * 5" and "W * H * 5 < 2 ^ 31"
  shows "call_image (last (trace (world_of
        (encode_frame e state yuv_input output_buf' output_buf_size force_keyframe w)))) =
      Some \<lparr>csp = XVID_CSP_I420 e,
            plane = [yuv_input,
                     yuv_input + word_of_int (W * H),
                     yuv_input + word_of_int (W * H + W * H div 4)],
            stride = [word_of_int W, word_of_int (W div 2), word_of_int (W div 2)]\<rparr> \<and>
    image_size (call_image (last (trace (world_of
        (encode_frame e state yuv_input output_buf' output_buf_size force_keyframe w))))) H =
      Some (W * H * 3 div 2)"
proof -
  let ?s = "encoder_mem w state"
  have d: "even (sint (encoder_state.width ?s))" "even (sint (encoder_state.height ?s))"
      "- (2 ^ 31) \<le> sint (encoder_state.width ?s) * sint (encoder_state.height ?s) * 5"
      "sint (encoder_state.width ?s) * sint (encoder_state.height ?s) * 5 < 2 ^ 31"
    using assms by simp_all
  have img: "call_image (last (trace (world_of
        (encode_frame e state yuv_input output_buf' output_buf_size force_keyframe w)))) =
      Some \<lparr>csp = XVID_CSP_I420 e,
            plane = [yuv_input,
                     yuv_input + word_of_int (W * H),
                     yuv_input + word_of_int (W * H + W * H div 4)],
            stride = [word_of_int W, word_of_int (W div 2), word_of_int (W div 2)]\<rparr>"
    unfolding encode_frame_image [OF assms(1)] i420_layout [OF d] assms(2,3) ..
  have size: "sint (word_of_int (W * H + W * H div 4) :: 32 word) +
      sint (word_of_int (W div 2) :: 32 word) * (H div 2) = W * H * 3 div 2"
    using i420_size [OF d] unfolding assms(2,3) .
  show ?thesis
    unfolding img using size by simp
qed

text \<open>
  Claim C2, as the specification states it, for all even widths and heights: the V plane
  starts \<open>w * h + w * h / 4\<close> bytes into the buffer. The bridge computes
  \<open>w * h * 5 / 4\<close> in 32-bit integers, and for a decoder created with the hints 30000 by
  30000 the product \<open>w * h * 5\<close> no longer fits: the V plane is put 51258176 bytes into
  the buffer, not 1125000000.
\<close>

theorem plane_layout_counterexample:
  "returned (init_decoder example_env 30000 30000 start_world) = Some 4096 \<and>
   call_image (last (trace (world_of
       (decode_frame example_env 4096 20480 100 65536 0 0 0
          (world_of (init_decoder example_env 30000 30000 start_world)))))) =
     Some \<lparr>csp = 2,
           plane = [65536, 65536 + 900000000, 65536 + 51258176],
           stride = [30000, 15000, 15000]\<rparr> \<and>
   even (30000 :: int) \<and>
   (65536 + 51258176 :: addr) \<noteq> 65536 + word_of_int (30000 * 30000 + 30000 * 30000 div 4)"
  by (simp add: init_decoder_def decode_frame_def malloc_def free_def bridge_defs
      example_defs c_div_def signed_divide_int_def)

text \<open>
  Claim C2, amended. Take any call of \<open>decode_frame\<close> on a live session, and any call
  of \<open>encode_frame\<close> on a live session, each on its own. Let \<open>W\<close> and \<open>H\<close> be the width
  and height of the session, read as signed integers, both even, with \<open>W * H * 5\<close> in
  the range of a 32-bit \<open>int\<close>. Then the picture that the call hands to Xvid has the Y
  plane at the start of the buffer with stride \<open>W\<close>, the U plane at offset \<open>W * H\<close> with
  stride \<open>W / 2\<close> and the V plane at offset \<open>W * H + W * H / 4\<close> with stride \<open>W / 2\<close>; and
  the offset of that V plane plus \<open>H / 2\<close> rows of its stride, the size of the buffer,
  is \<open>W * H * 3 / 2\<close>. All the divisions are exact.
\<close>

theorem plane_layout:
  "(valid_ptr state w \<and>
    sint (decoder_state.width (decoder_mem w state)) = W \<and>
    sint (decoder_state.height (decoder_mem w state)) = H \<and>
    even W \<and> even H \<and> - (2 ^ 31) \<le> W * H * 5 \<and> W * H * 5 < 2 ^ 31 \<longrightarrow>
      call_image (last (trace (world_of
        (decode_frame e state input_buf input_size output_buf out_type out_width out_height w)))) =
      Some \<lparr>csp = XVID_CSP_I420 e,
            plane = [output_buf,
                     output_buf + word_of_int (W * H),
                     output_buf + word_of_int (W * H + W * H div 4)],
            stride = [word_of_int W, word_of_int (W div 2), word_of_int (W div 2)]\<rparr> \<and>
      image_size (call_image (last (trace (world_of
        (decode_frame e state input_buf input_size output_buf out_type out_width out_height w))))) H =
      Some (W * H * 3 div 2)) \<and>
   (valid_ptr state w \<and>
    sint (encoder_state.width (encoder_mem w state)) = W \<and>
    sint (encoder_state.height (encoder_mem w state)) = H \<and>
    even W \<and> even H \<and> - (2 ^ 31) \<le> W * H * 5 \<and> W * H * 5 < 2 ^ 31 \<longrightarrow>
      call_image (last (trace (world_of
        (encode_frame e state yuv_input output_buf' output_buf_size force_keyframe w)))) =
      Some \<lparr>csp = XVID_CSP_I420 e,
            plane = [yuv_input,
                     yuv_input + word_of_int (W * H),
                     yuv_input + word_of_int (W * H + W * H div 4)],
            stride = [word_of_int W, word_of_int (W div 2), word_of_int (W div 2)]\<rparr> \<and>
      image_size (call_image (last (trace (world_of
        (encode_frame e state yuv_input output_buf' output_buf_size force_keyframe w))))) H =
      Some (W * H * 3 div 2))"
proof (intro conjI impI)
  assume "valid_ptr state w \<and>
    sint (decoder_state.width (decoder_mem w state)) = W \<and>
    sint (decoder_state.height (decoder_mem w state)) = H \<and>
    even W \<and> even H \<and> - (2 ^ 31) \<le> W * H * 5 \<and> W * H * 5 < 2 ^ 31"
  then have h: "valid_ptr state w"
    "sint (decoder_state.width (decoder_mem w state)) = W"
    "sint (decoder_state.height (decoder_mem w state)) = H"
    "even W" "even H" "- (2 ^ 31) \<le> W * H * 5" "W * H * 5 < 2 ^ 31"
    by simp_all
  note l = decode_frame_layout [OF h]
  show "call_image (last (trace (world_of
        (decode_frame e state input_buf input_size output_buf out_type out_width out_height w)))) =
      Some \<lparr>csp = XVID_CSP_I420 e,
            plane = [output_buf,
                     output_buf + word_of_int (W * H),
                     output_buf + word_of_int (W * H + W * H div 4)],
            stride = [word_of_int W, word_of_int (W div 2), word_of_int (W div 2)]\<rparr>"
    using l by (rule conjunct1)
  show "image_size (call_image (last (trace (world_of
        (decode_frame e state input_buf input_size output_buf out_type out_width out_height w))))) H =
      Some (W * H * 3 div 2)"
    using l by (rule conjunct2)
next
  assume "valid_ptr state w \<and>
    sint (encoder_state.width (encoder_mem w state)) = W \<and>
    sint (encoder_state.height (encoder_mem w state)) = H \<and>
    even W \<and> even H \<and> - (2 ^ 31) \<le> W * H * 5 \<and> W * H * 5 < 2 ^ 31"
  then have h: "valid_ptr state w"
    "sint (encoder_state.width (encoder_mem w state)) = W"
    "sint (encoder_state.height (encoder_mem w state)) = H"
    "even W" "even H" "- (2 ^ 31) \<le> W * H * 5" "W * H * 5 < 2 ^ 31"
    by simp_all
  note l = encode_frame_layout [OF h]
  show "call_image (last (trace (world_of
        (encode_frame e state yuv_input output_buf' output_buf_size force_keyframe w)))) =
      Some \<lparr>csp = XVID_CSP_I420 e,
            plane = [yuv_input,
                     yuv_input + word_of_int (W * H),
                     yuv_input + word_of_int (W * H + W * H div 4)],
            stride = [word_of_int W, word_of_int (W div 2), word_of_int (W div 2)]\<rparr>"
    using l by (rule conjunct1)
  show "image_size (call_image (last (trace (world_of
        (encode_frame e state yuv_input output_buf' output_buf_size force_keyframe w))))) H =
      Some (W * H * 3 div 2)"
    using l by (rule conjunct2)
qed

theorem plane_layout_witness:
  "valid_ptr 4096 example_world \<and>
   sint (decoder_state.width (decoder_mem example_world 4096)) = 176 \<and>
   sint (decoder_state.height (decoder_mem example_world 4096)) = 144 \<and>
   valid_ptr 4112 example_world \<and>
   sint (encoder_state.width (encoder_mem example_world 4112)) = 176 \<and>
   sint (encoder_state.height (encoder_mem example_world 4112)) = 144 \<and>
   even (176 :: int) \<and> even (144 :: int) \<and>
   - (2 ^ 31) \<le> (176 :: int) * 144 * 5 \<and> (176 :: int) * 144 * 5 < 2 ^ 31 \<and>
   call_image (last (trace (world_of
       (decode_frame example_env 4096 20480 100 65536 0 0 0 example_world)))) =
     Some \<lparr>csp = 2, plane = [65536, 65536 + 25344, 65536 + 31680], stride = [176, 88, 88]\<rparr> \<and>
   image_size (call_image (last (trace (world_of
       (decode_frame example_env 4096 20480 100 65536 0 0 0 example_world))))) 144 =
     Some 38016 \<and>
   call_image (last (trace (world_of
       (encode_frame example_env 4112 65536 20480 4096 1 example_world)))) =
     Some \<lparr>csp = 2, plane = [65536, 65536 + 25344, 65536 + 31680], stride = [176, 88, 88]\<rparr> \<and>
   image_size (call_image (last (trace (world_of
       (encode_frame example_env 4112 65536 20480 4096 1 example_world))))) 144 =
     Some 38016"
proof -
  have v: "valid_ptr 4096 example_world" "valid_ptr 4112 example_world"
    by (simp_all add: example_defs valid_ptr_def)
  have m: "sint (decoder_state.width (decoder_mem example_world 4096)) = 176"
    "sint (decoder_state.height (decoder_mem example_world 4096)) = 144"
    "sint (encoder_state.width (encoder_mem example_world 4112)) = 176"
    "sint (encoder_state.height (encoder_mem example_world 4112)) = 144"
    by (simp_all add: decoder_mem_def encoder_mem_def width_field_def height_field_def
        example_defs)
  have c: "XVID_CSP_I420 example_env = 2"
    by (simp add: example_env_def)
  show ?thesis
    using v m c
      plane_layout [where state = 4096 and w = example_world
        and W = 176 and H = 144 and e = example_env
        and input_buf = 20480 and input_size = 100 and output_buf = 65536
        and out_type = 0 and out_width = 0 and out_height = 0, THEN conjunct1]
      plane_layout [where state = 4112 and w = example_world
        and W = 176 and H = 144 and e = example_env
        and yuv_input = 65536 and output_buf' = 20480 and output_buf_size = 4096
        and force_keyframe = 1, THEN conjunct2]
    by simp
qed

subsection \<open>encode_frame and init_encoder\<close>

text \<open>
  Claim C6. A call of \<open>encode_frame\<close> on a live session issues exactly one encode
  request on the handle of the session. When the result code of that request is
  positive, as a signed integer, the call returns the length that the request left in
  the statistics; otherwise it returns the result code itself. It changes no session
  object.
\<close>

theorem encode_frame_result:
  "valid_ptr state w \<Longrightarrow>
   (let r = encode_frame e state yuv_input output_buf output_buf_size force_keyframe w;
        w' = world_of r;
        ret = xvid_encore_ret e (trace w')
    in returned r =
         Some (if 0 < sint ret then xvid_enc_stats_t.length (xvid_enc_stats e (trace w'))
               else ret) \<and>
       (\<exists>f st. trace w' =
          trace w @ [Call_xvid_encore (encoder_handle (encoder_mem w state)) (XVID_ENC_ENCODE f st)]) \<and>
       allocated w' = allocated w \<and>
       encoder_mem w' = encoder_mem w)"
  by (simp add: encode_frame_def bridge_defs word_sless_alt fun_eq_iff)

theorem encode_frame_result_witness:
  "valid_ptr 4112 example_world \<and>
   returned (encode_frame example_env 4112 65536 20480 4096 1 example_world) = Some 1234 \<and>
   returned (encode_frame example_env_fail 4112 65536 20480 4096 1 example_world) = Some (- 1) \<and>
   (\<exists>f st. trace (world_of (encode_frame example_env_fail 4112 65536 20480 4096 1 example_world)) =
      [Call_xvid_encore 12288 (XVID_ENC_ENCODE f st)])"
proof -
  have v: "valid_ptr 4112 example_world"
    by (simp add: example_defs valid_ptr_def)
  have h: "encoder_handle (encoder_mem example_world 4112) = 12288"
    "trace example_world = []"
    by (simp_all add: encoder_mem_def handle_field_def example_defs)
  have e: "xvid_encore_ret example_env [Call_xvid_encore 12288 (XVID_ENC_ENCODE f st)] = 57"
    "xvid_enc_stats_t.length (xvid_enc_stats example_env t) = 1234"
    "xvid_encore_ret example_env_fail t = - 1" for f st t
    by (simp_all add: example_defs)
  show ?thesis
    using v
      encode_frame_result [OF v, where e = example_env and yuv_input = 65536
        and output_buf = 20480 and output_buf_size = 4096 and force_keyframe = 1]
      encode_frame_result [OF v, where e = example_env_fail and yuv_input = 65536
        and output_buf = 20480 and output_buf_size = 4096 and force_keyframe = 1]
    by (auto simp add: Let_def h e)
qed

text \<open>
  Claim C7. Whatever its arguments, a call of \<open>init_encoder\<close> initialises Xvid, asks for
  the memory of the session and then asks Xvid to create an encoder with the given
  width and height, \<open>fincr = fps_den\<close>, \<open>fbase = fps_num\<close>, no zones, no plugins,
  \<open>num_threads = 0\<close>, \<open>max_bframes = 0\<close>, \<open>max_key_interval = 250\<close> and \<open>global = 0\<close>.
  The only call that can follow is the \<open>free\<close> of the session when the creation is
  refused. The bit rate is in no call.
\<close>

theorem init_encoder_configuration:
  "(let xvid_init = \<lparr>xvid_gbl_init_t.version = XVID_VERSION e, cpu_flags = 0\<rparr>;
        enc_create =
          \<lparr>xvid_enc_create_t.version = XVID_VERSION e,
           xvid_enc_create_t.width = width',
           xvid_enc_create_t.height = height',
           fincr = fps_den,
           fbase = fps_num,
           zones = NULL,
           num_zones = 0,
           plugins = NULL,
           num_plugins = 0,
           num_threads = 0,
           max_bframes = 0,
           max_key_interval = 250,
           global = 0,
           xvid_enc_create_t.handle = NULL\<rparr>;
        t1 = trace w @ [Call_xvid_global NULL 0 xvid_init NULL, Call_malloc Obj_encoder_state];
        t2 = t1 @ [Call_xvid_encore NULL (XVID_ENC_CREATE enc_create)]
    in trace (world_of (init_encoder e width' height' bitrate fps_num fps_den w)) =
         t2 @ (if xvid_encore_ret e t2 = 0 then [] else [Call_free (malloc_ret e t1)]))"
  by (simp add: init_encoder_def malloc_def free_def bridge_defs)

subsection \<open>init_lame\<close>

text \<open>
  Claim C8. A call of \<open>init_lame\<close> creates a LAME context and sets, in this order, the
  number of channels, the input sample rate, the output sample rate to the same value,
  the bit rate to \<open>bitrate / 1000\<close> and the VBR tag to 0, and then asks LAME to check
  the parameters. The quotient is the one of C: the magnitude of \<open>bitrate\<close> divided by
  1000 and rounded down, with the sign of \<open>bitrate\<close>.
\<close>

theorem init_lame_configuration:
  "(let gfp' = lame_init_ret e (trace w @ [Call_lame_init])
    in init_lame e number_of_channels sample_rate bitrate w =
         (gfp',
          w\<lparr>trace := trace w @
             [Call_lame_init,
              Call_lame_set_num_channels gfp' number_of_channels,
              Call_lame_set_in_samplerate gfp' sample_rate,
              Call_lame_set_out_samplerate gfp' sample_rate,
              Call_lame_set_brate gfp' (c_div bitrate 1000),
              Call_lame_set_bWriteVbrTag gfp' 0,
              Call_lame_init_params gfp']\<rparr>)) \<and>
   sint (c_div bitrate 1000) = sgn (sint bitrate) * (\<bar>sint bitrate\<bar> div 1000)"
  by (simp add: init_lame_def bridge_defs sint_c_div_1000)

text \<open>
  Claim C5. \<open>init_lame\<close> returns the pointer that \<open>lame_init\<close> gave it, and neither this
  pointer nor the world after the call depends on what \<open>lame_init_params\<close> answers.
\<close>

theorem init_lame_ignores_validation:
  "fst (init_lame e number_of_channels sample_rate bitrate w) =
     lame_init_ret e (trace w @ [Call_lame_init]) \<and>
   init_lame (e\<lparr>lame_init_params_ret := any_ret\<rparr>) number_of_channels sample_rate bitrate w =
     init_lame e number_of_channels sample_rate bitrate w"
  by (simp add: init_lame_def bridge_defs)

subsection \<open>Closing a session\<close>

text \<open>
  Claim C3, as the specification states it: a second close of a closed session is not a
  fault. A decoder session is created and closed. The second \<open>close_decoder\<close> on the
  same pointer reads the handle out of the block that the first one freed.
\<close>

theorem double_close_counterexample:
  "returned (init_decoder example_env 0 0 start_world) = Some 4096 \<and>
   faulted (close_decoder 4096 (world_of (init_decoder example_env 0 0 start_world))) = None \<and>
   faulted (close_decoder 4096
     (world_of (close_decoder 4096 (world_of (init_decoder example_env 0 0 start_world))))) =
     Some InvalidPointer"
  by (simp add: init_decoder_def close_decoder_def malloc_def free_def bridge_defs example_defs)

text \<open>
  Claim C3, amended. Closing the null session, which is what a failed creation
  returns, does nothing in \<open>close_decoder\<close> and in \<open>close_encoder\<close>: no call, no change.
  \<open>close_lame\<close> has no test of its own: it hands every pointer, null or not, to
  \<open>lame_close\<close>, once for each call.
\<close>

theorem close_null_session:
  "close_decoder NULL w = Inr ((), w) \<and>
   close_encoder NULL w = Inr ((), w) \<and>
   close_lame gfp' w = w\<lparr>trace := trace w @ [Call_lame_close gfp']\<rparr>"
  by (simp add: close_decoder_def close_encoder_def close_lame_def log_call_def)

subsection \<open>Creating a session without memory\<close>

text \<open>
  Claim C4. When \<open>malloc\<close> returns \<open>NULL\<close> and Xvid creates its context, \<open>init_decoder\<close>
  and \<open>init_encoder\<close> store the handle through the null pointer. The trace at that
  point shows the context created and never destroyed.
\<close>

theorem init_without_memory:
  "faulted (init_decoder example_env_oom 0 0 start_world) = Some NullDereference \<and>
   trace (world_of (init_decoder example_env_oom 0 0 start_world)) =
     [Call_xvid_global 0 0 \<lparr>xvid_gbl_init_t.version = 66311, cpu_flags = 0\<rparr> 0,
      Call_malloc Obj_decoder_state,
      Call_xvid_decore 0
        (XVID_DEC_CREATE
           \<lparr>xvid_dec_create_t.version = 66311,
            xvid_dec_create_t.width = 0,
            xvid_dec_create_t.height = 0,
            xvid_dec_create_t.handle = 0\<rparr>)] \<and>
   faulted (init_encoder example_env_oom 176 144 500000 1 25 start_world) =
     Some NullDereference \<and>
   last (trace (world_of (init_encoder example_env_oom 176 144 500000 1 25 start_world))) =
     Call_xvid_encore 0
       (XVID_ENC_CREATE
          \<lparr>xvid_enc_create_t.version = 66311,
           xvid_enc_create_t.width = 176,
           xvid_enc_create_t.height = 144,
           fincr = 25,
           fbase = 1,
           zones = 0,
           num_zones = 0,
           plugins = 0,
           num_plugins = 0,
           num_threads = 0,
           max_bframes = 0,
           max_key_interval = 250,
           global = 0,
           xvid_enc_create_t.handle = 0\<rparr>)"
  by (simp add: init_decoder_def init_encoder_def malloc_def free_def bridge_defs example_defs)

end
